theory Spec2Isabelle
  imports Main "HOL-Library.Sublist"
begin

section \<open>The supervisor process (index.js)\<close>

text \<open>
  The supervisor is one Node.js process. Its module-level variables, the files it reads
  and writes, its pending timers and the calls it makes to collaborators are the fields
  of one record; every function of index.js is a function from that record to the
  updated record. Node runs each handler to completion before the next one starts, so a
  handler is an atomic state transformer.
\<close>

text \<open>
  The text of script.lock. The program reads it in two ways only: handleExit applies
  \<open>parseInt\<close> to it, and isAlreadyRunning hands it to \<open>process.kill\<close>, which
  converts it to a number. A text is therefore given by what these two conversions make
  of it. \<open>PidText p\<close> is the decimal text of \<open>p\<close>, which createLockFile writes
  (\<open>process.pid.toString()\<close>). \<open>Text n i\<close> is any other text: \<open>n\<close> is the integer
  that JavaScript's conversion to a number yields (surrounding whitespace is ignored,
  the empty text and whitespace alone yield 0, a sign, a hexadecimal prefix and an
  exponent are read), and \<open>None\<close> when the conversion yields NaN, a fraction or an
  infinity; \<open>i\<close> is what \<open>parseInt\<close> reads (after leading whitespace, the longest
  leading integer, whatever follows it), and \<open>None\<close> when it reads NaN.
\<close>

datatype lock_content = PidText nat | Text "int option" "int option"

text \<open>The number the text converts to, when that is an integer.\<close>

definition toNumber :: "lock_content \<Rightarrow> int option" where
  "toNumber c = (case c of PidText p \<Rightarrow> Some (int p) | Text n i \<Rightarrow> n)"

text \<open>\<open>parseInt\<close> of the lock file's text; \<open>None\<close> is NaN.\<close>

definition parseInt :: "lock_content \<Rightarrow> int option" where
  "parseInt c = (case c of PidText p \<Rightarrow> Some (int p) | Text n i \<Rightarrow> i)"

text \<open>
  The empty lock file: the empty text converts to the number 0, and \<open>parseInt\<close>
  reads NaN from it.
\<close>

definition empty_text :: lock_content where
  "empty_text = Text (Some 0) None"

datatype role = Execution | Consensus | Validator | Relay

datatype exit_type =
  SIGINT | SIGTERM | SIGHUP | SIGUSR2 | ExitEvent | UncaughtException | UnhandledRejection

text \<open>A call \<open>sendTelegramAlert("crash", message)\<close>: the label and exit code in the message.\<close>

datatype alert = CrashAlert string int

text \<open>
  The child a listener is attached to: \<open>startClient(clientName, ...)\<close>,
  \<open>startValidatorClient\<close> or \<open>startMevBoost\<close>.
\<close>

datatype child_id = Client string | ValidatorClient | MevBoost

record proc =
  pid :: nat
  lockFile :: "lock_content option"
  optionsFile :: bool
  executionChild :: bool
  consensusChild :: bool
  validatorChild :: bool
  mevBoostChild :: bool
  executionExited :: bool
  consensusExited :: bool
  validatorExited :: bool
  mevBoostExited :: bool
  isExiting :: bool
  shutdownListeners :: "role list"
  timers :: "(nat \<times> role) list"
  intervalActive :: bool
  killCalls :: "role list"
  alerts :: "alert list"
  exitCode :: "nat option"
  secureDirPath :: "string option"
  macRamDiskDevice :: "string option"
  secureDirOnDisk :: "string list option"

text \<open>
  \<open>lockFile\<close> is \<open>None\<close> when script.lock does not exist; \<open>optionsFile\<close> says whether
  options.json exists; \<open>executionChild\<close> ... \<open>mevBoostChild\<close> say whether the variable
  holds a child handle; \<open>shutdownListeners\<close> lists the children on which handleExit has
  attached its exit and close listeners; \<open>timers\<close> is the queue of pending
  \<open>setTimeout(() => child.kill("SIGINT"), delay)\<close> callbacks in the order they will
  fire; \<open>killCalls\<close> logs the \<open>kill("SIGINT")\<close> calls made; \<open>exitCode\<close> is the
  argument of \<open>process.exit\<close> once it has been called. \<open>secureDirPath\<close> and
  \<open>macRamDiskDevice\<close> are the module variables of secureStore.js and
  \<open>secureDirOnDisk\<close> the files inside the secure directory (\<open>None\<close>: the directory
  does not exist).
\<close>

definition child_of :: "role \<Rightarrow> proc \<Rightarrow> bool" where
  "child_of r s = (case r of Execution \<Rightarrow> executionChild s | Consensus \<Rightarrow> consensusChild s
     | Validator \<Rightarrow> validatorChild s | Relay \<Rightarrow> mevBoostChild s)"

definition exited_of :: "role \<Rightarrow> proc \<Rightarrow> bool" where
  "exited_of r s = (case r of Execution \<Rightarrow> executionExited s | Consensus \<Rightarrow> consensusExited s
     | Validator \<Rightarrow> validatorExited s | Relay \<Rightarrow> mevBoostExited s)"

definition set_exited :: "role \<Rightarrow> proc \<Rightarrow> proc" where
  "set_exited r s = (case r of Execution \<Rightarrow> s\<lparr>executionExited := True\<rparr>
     | Consensus \<Rightarrow> s\<lparr>consensusExited := True\<rparr>
     | Validator \<Rightarrow> s\<lparr>validatorExited := True\<rparr>
     | Relay \<Rightarrow> s\<lparr>mevBoostExited := True\<rparr>)"

text \<open>
  \<open>process.exit(code)\<close> does not return. It emits the exit event once; the exit
  listener of index.js calls handleExit again only while \<open>isExiting\<close> is false, and
  handleExit then takes the branch it took before and calls \<open>process.exit\<close> with the
  same code, which ends the process. The model records the code; no handler runs on a
  process whose \<open>exitCode\<close> is set (see \<open>deliver\<close>).
\<close>

definition process_exit :: "nat \<Rightarrow> proc \<Rightarrow> proc" where
  "process_exit code s = s\<lparr>exitCode := Some code\<rparr>"

definition removeLockFile :: "proc \<Rightarrow> proc" where
  "removeLockFile s = (if lockFile s \<noteq> None then s\<lparr>lockFile := None\<rparr> else s)"

definition deleteOptionsFile :: "proc \<Rightarrow> proc" where
  "deleteOptionsFile s = (if optionsFile s then s\<lparr>optionsFile := False\<rparr> else s)"

definition checkExit :: "proc \<Rightarrow> proc" where
  "checkExit s =
     (if executionExited s \<and> consensusExited s \<and> validatorExited s \<and> mevBoostExited s
      then process_exit 0 (removeLockFile s) else s)"

text \<open>\<open>if (!child) childExited = true\<close>\<close>

definition mark_not_in_use :: "role \<Rightarrow> proc \<Rightarrow> proc" where
  "mark_not_in_use r s = (if \<not> child_of r s then set_exited r s else s)"

text \<open>
  \<open>if (child && !childExited) { child.on("exit", ...); child.on("close", ...) }
  else { childExited = true }\<close>
\<close>

definition attach_listeners :: "role \<Rightarrow> proc \<Rightarrow> proc" where
  "attach_listeners r s =
     (if child_of r s \<and> \<not> exited_of r s
      then s\<lparr>shutdownListeners := shutdownListeners s @ [r]\<rparr>
      else set_exited r s)"

text \<open>
  \<open>setTimeout(callback, ms)\<close> for timers created within one run of a handler: they
  start at the same loop time, so they fire in the order of their delays, and timers of
  equal delay fire in the order they were created.
\<close>

definition setTimeout :: "nat \<Rightarrow> role \<Rightarrow> (nat \<times> role) list \<Rightarrow> (nat \<times> role) list" where
  "setTimeout ms r q =
     takeWhile (\<lambda>t. fst t \<le> ms) q @ [(ms, r)] @ dropWhile (\<lambda>t. fst t \<le> ms) q"

text \<open>
  \<open>if (child && !childExited) { setTimeout(() => { child.kill("SIGINT") }, ms) }\<close>
\<close>

definition schedule_kill :: "role \<Rightarrow> nat \<Rightarrow> proc \<Rightarrow> proc" where
  "schedule_kill r ms s =
     (if child_of r s \<and> \<not> exited_of r s
      then s\<lparr>timers := setTimeout ms r (timers s)\<rparr>
      else s)"

definition handleExit :: "exit_type \<Rightarrow> proc \<Rightarrow> proc" where
  "handleExit exitType s =
     (if isExiting s then s
      else case lockFile s of
        None \<Rightarrow> process_exit 1 s
      | Some lockFilePid \<Rightarrow>
          if parseInt lockFilePid \<noteq> Some (int (pid s)) then process_exit 0 s
          else
            let s1 = s\<lparr>isExiting := True\<rparr>;
                s2 = deleteOptionsFile s1;
                s3 = mark_not_in_use Validator s2;
                s4 = mark_not_in_use Relay s3;
                s5 = attach_listeners Execution s4;
                s6 = attach_listeners Consensus s5;
                s7 = attach_listeners Validator s6;
                s8 = attach_listeners Relay s7;
                s9 = schedule_kill Validator 500 s8;
                s10 = schedule_kill Execution 750 s9;
                s11 = schedule_kill Consensus 750 s10;
                s12 = schedule_kill Relay 750 s11;
                s13 = checkExit s12
            in if exitCode s13 \<noteq> None then s13 else s13\<lparr>intervalActive := True\<rparr>)"

text \<open>
  The listeners of the process itself: the four signals, the exit event, uncaught
  exceptions and unhandled rejections.
\<close>

definition on_termination :: "exit_type \<Rightarrow> proc \<Rightarrow> proc" where
  "on_termination exitType s =
     (case exitType of
        ExitEvent \<Rightarrow> (if \<not> isExiting s then handleExit ExitEvent s else s)
      | _ \<Rightarrow> handleExit exitType s)"

text \<open>The variable a child of \<open>startClient\<close> is stored in.\<close>

definition role_of :: "child_id \<Rightarrow> role option" where
  "role_of c = (case c of
       Client clientName \<Rightarrow>
         (if clientName = ''geth'' \<or> clientName = ''reth'' then Some Execution
          else if clientName = ''prysm'' \<or> clientName = ''lighthouse'' then Some Consensus
          else None)
     | ValidatorClient \<Rightarrow> Some Validator
     | MevBoost \<Rightarrow> Some Relay)"

text \<open>
  \<open>clientName.charAt(0).toUpperCase() + clientName.slice(1)\<close>, on ASCII letters.
\<close>

definition toUpperCase :: "char \<Rightarrow> char" where
  "toUpperCase c =
     (if (97::nat) \<le> of_char c \<and> of_char c \<le> (122::nat)
      then char_of (of_char c - (32::nat)) else c)"

definition capitalized :: "string \<Rightarrow> string" where
  "capitalized clientName =
     (case clientName of [] \<Rightarrow> [] | c # cs \<Rightarrow> toUpperCase c # cs)"

text \<open>
  The subject of the alert message: the capitalised client name, "CRITICAL: Validator
  client" or "MEV-Boost".
\<close>

definition alert_label :: "child_id \<Rightarrow> string" where
  "alert_label c = (case c of Client clientName \<Rightarrow> capitalized clientName
     | ValidatorClient \<Rightarrow> ''CRITICAL: Validator client''
     | MevBoost \<Rightarrow> ''MEV-Boost'')"

text \<open>
  The exit listener that \<open>startClient\<close>, \<open>startValidatorClient\<close> and \<open>startMevBoost\<close>
  attach when they spawn the child: \<open>code\<close> is \<open>None\<close> for JavaScript's null, the
  exit code of a child that a signal terminated.
\<close>

definition spawn_exit_listener :: "child_id \<Rightarrow> int option \<Rightarrow> proc \<Rightarrow> proc" where
  "spawn_exit_listener c code s =
     (let s1 = (case code of
                  None \<Rightarrow> s
                | Some n \<Rightarrow>
                    if \<not> isExiting s then s\<lparr>alerts := alerts s @ [CrashAlert (alert_label c) n]\<rparr>
                    else s)
      in case role_of c of None \<Rightarrow> s1 | Some r \<Rightarrow> set_exited r s1)"

text \<open>
  The exit and close listeners that handleExit attaches (handleExecutionExit,
  handleExecutionClose and their siblings).
\<close>

definition shutdown_listener :: "role \<Rightarrow> proc \<Rightarrow> proc" where
  "shutdown_listener r s =
     (if \<not> exited_of r s then checkExit (set_exited r s) else s)"

text \<open>
  What the event loop delivers to the process. \<open>Terminate ExitEvent\<close> is the run of
  the exit listener; Node ends the process when that listener returns, so in a real run
  no event follows it. The event lists of the model are all lists, which are more than
  the real runs: a property of every list holds of every real run.
\<close>

datatype event =
  Terminate exit_type
  | ChildExit child_id "int option"
  | ChildClose child_id
  | TimerFire
  | IntervalTick

definition on_role :: "child_id \<Rightarrow> (role \<Rightarrow> proc \<Rightarrow> proc) \<Rightarrow> proc \<Rightarrow> proc" where
  "on_role c f s = (case role_of c of
       None \<Rightarrow> s
     | Some r \<Rightarrow> if r \<in> set (shutdownListeners s) then f r s else s)"

definition deliver :: "event \<Rightarrow> proc \<Rightarrow> proc" where
  "deliver e s =
     (if exitCode s \<noteq> None then s
      else case e of
        Terminate exitType \<Rightarrow> on_termination exitType s
      | ChildExit c code \<Rightarrow>
          (let s1 = spawn_exit_listener c code s
           in if exitCode s1 \<noteq> None then s1 else on_role c shutdown_listener s1)
      | ChildClose c \<Rightarrow> on_role c shutdown_listener s
      | TimerFire \<Rightarrow>
          (case timers s of
             [] \<Rightarrow> s
           | t # ts \<Rightarrow> s\<lparr>timers := ts, killCalls := killCalls s @ [snd t]\<rparr>)
      | IntervalTick \<Rightarrow> (if intervalActive s then checkExit s else s))"

definition run :: "event list \<Rightarrow> proc \<Rightarrow> proc" where
  "run es s = fold deliver es s"

text \<open>cleanupSecureDir of secureStore.js.\<close>

definition cleanupSecureDir :: "proc \<Rightarrow> proc" where
  "cleanupSecureDir s =
     (case secureDirPath s of
        None \<Rightarrow> s
      | Some d \<Rightarrow> s\<lparr>secureDirOnDisk := None, macRamDiskDevice := None, secureDirPath := None\<rparr>)"

text \<open>The children that handleExit will signal: assigned and not yet exited.\<close>

definition running :: "proc \<Rightarrow> role \<Rightarrow> bool" where
  "running s r = (child_of r s \<and> \<not> exited_of r s)"

definition grace_delay :: "role \<Rightarrow> nat" where
  "grace_delay r = (case r of Validator \<Rightarrow> 500 | _ \<Rightarrow> 750)"

definition shutdown_order :: "proc \<Rightarrow> role list" where
  "shutdown_order s = filter (running s) [Validator, Execution, Consensus, Relay]"

text \<open>
  The invariant of a shutdown in progress: the kill calls made so far, followed by the
  pending ones in the order they will fire, are the list \<open>L\<close>.
\<close>

definition kill_inv :: "role list \<Rightarrow> proc \<Rightarrow> bool" where
  "kill_inv L s = (isExiting s \<and> killCalls s @ map snd (timers s) = L)"

text \<open>A primary supervisor with its four children and a password in its secure directory.\<close>

definition demo_proc :: proc where
  "demo_proc = \<lparr> pid = 4242, lockFile = Some (PidText 4242), optionsFile = True,
     executionChild = True, consensusChild = True, validatorChild = True, mevBoostChild = True,
     executionExited = False, consensusExited = False, validatorExited = False,
     mevBoostExited = False, isExiting = False, shutdownListeners = [], timers = [],
     intervalActive = False, killCalls = [], alerts = [], exitCode = None,
     secureDirPath = Some ''/dev/shm/bgclient-4242'', macRamDiskDevice = None,
     secureDirOnDisk = Some [''password.txt''] \<rparr>"

section \<open>The instance lock (index.js: isAlreadyRunning, createLockFile)\<close>

text \<open>
  What the system call behind \<open>process.kill(n, 0)\<close> finds for its argument \<open>n\<close>:
  nothing (the call throws ESRCH), something the caller may signal (the call returns),
  or something of another user (the call throws EPERM). For \<open>n > 0\<close> the argument
  names the process \<open>n\<close>; 0 names the caller's own process group, which always holds
  the caller; a negative \<open>n\<close> names a process group, and -1 every other process.
\<close>

datatype proc_state = NoProcess | Signalable | NotPermitted

datatype errcode = ESRCH | EPERM | ERR_INVALID_ARG_TYPE

datatype kill_outcome = Signalled | Throws errcode

text \<open>
  \<open>process.kill(pid, 0)\<close> on the text read from the lock file. Node first tests
  \<open>pid != (pid | 0)\<close> and throws a TypeError when it holds: when the text does not
  convert to an integer of 32 bits. Otherwise the system call gets that integer.
\<close>

definition process_kill :: "(int \<Rightarrow> proc_state) \<Rightarrow> lock_content \<Rightarrow> kill_outcome" where
  "process_kill ptable c =
     (case toNumber c of
        None \<Rightarrow> Throws ERR_INVALID_ARG_TYPE
      | Some n \<Rightarrow>
          if n < - (2 ^ 31) \<or> 2 ^ 31 \<le> n then Throws ERR_INVALID_ARG_TYPE
          else
            (case ptable n of
               NoProcess \<Rightarrow> Throws ESRCH
             | Signalable \<Rightarrow> Signalled
             | NotPermitted \<Rightarrow> Throws EPERM))"

text \<open>The process with the identifier \<open>p\<close> exists.\<close>

definition alive :: "(int \<Rightarrow> proc_state) \<Rightarrow> nat \<Rightarrow> bool" where
  "alive ptable p = (0 < p \<and> ptable (int p) \<noteq> NoProcess)"

text \<open>
  isAlreadyRunning on the lock file alone (no other process touches the file while it
  runs): the result and the file afterwards. An error other than ESRCH is rethrown and
  caught by the outer handler, which returns false.
\<close>

definition isAlreadyRunning ::
  "(int \<Rightarrow> proc_state) \<Rightarrow> lock_content option \<Rightarrow> bool \<times> lock_content option" where
  "isAlreadyRunning ptable lk =
     (case lk of
        None \<Rightarrow> (False, lk)
      | Some c \<Rightarrow>
          (case process_kill ptable c of
             Signalled \<Rightarrow> (True, lk)
           | Throws e \<Rightarrow> if e = ESRCH then (False, None) else (False, lk)))"

definition createLockFile :: "nat \<Rightarrow> lock_content option \<Rightarrow> lock_content option" where
  "createLockFile self lk = Some (PidText self)"

datatype acquire_result = AlreadyRunning | Acquired

text \<open>
  The top level of index.js: \<open>if (!isAlreadyRunning()) { deleteOptionsFile();
  createLockFile(); ... } else { ... runsClient = false }\<close>. deleteOptionsFile does not
  touch the lock file.
\<close>

definition acquireInstanceLock ::
  "(int \<Rightarrow> proc_state) \<Rightarrow> nat \<Rightarrow> lock_content option \<Rightarrow> acquire_result \<times> lock_content option" where
  "acquireInstanceLock ptable self lk =
     (case isAlreadyRunning ptable lk of
        (True, lk') \<Rightarrow> (AlreadyRunning, lk')
      | (False, lk') \<Rightarrow> (Acquired, createLockFile self lk'))"

text \<open>
  The same code as a sequence of file-system calls, each atomic on its own, so that two
  supervisors started together can be interleaved: \<open>existsSync\<close>, \<open>readFileSync\<close>,
  \<open>process.kill\<close>, \<open>unlinkSync\<close>, \<open>writeFileSync\<close>. A \<open>readFileSync\<close> or
  \<open>unlinkSync\<close> that finds the file gone throws ENOENT, which the outer handler turns
  into the result false.
\<close>

datatype pc = PcExists | PcRead | PcKill lock_content | PcUnlink | PcCreate | PcDone acquire_result

fun step ::
  "(int \<Rightarrow> proc_state) \<Rightarrow> nat \<Rightarrow> pc \<Rightarrow> lock_content option \<Rightarrow> pc \<times> lock_content option" where
  "step ptable self PcExists lk = (if lk \<noteq> None then (PcRead, lk) else (PcCreate, lk))"
| "step ptable self PcRead lk = (case lk of Some c \<Rightarrow> (PcKill c, lk) | None \<Rightarrow> (PcCreate, lk))"
| "step ptable self (PcKill c) lk =
     (case process_kill ptable c of
        Signalled \<Rightarrow> (PcDone AlreadyRunning, lk)
      | Throws e \<Rightarrow> if e = ESRCH then (PcUnlink, lk) else (PcCreate, lk))"
| "step ptable self PcUnlink lk = (PcCreate, None)"
| "step ptable self PcCreate lk = (PcDone Acquired, createLockFile self lk)"
| "step ptable self (PcDone r) lk = (PcDone r, lk)"

text \<open>One caller running alone: five calls at most.\<close>

definition run_alone ::
  "(int \<Rightarrow> proc_state) \<Rightarrow> nat \<Rightarrow> lock_content option \<Rightarrow> pc \<times> lock_content option" where
  "run_alone ptable self lk =
     ((\<lambda>(p, l). step ptable self p l) ^^ 5) (PcExists, lk)"

text \<open>
  Two callers \<open>A\<close> and \<open>B\<close> on one lock file; the schedule says whose call runs next
  (\<open>True\<close>: the first caller's).
\<close>

record race =
  pcA :: pc
  pcB :: pc
  lock :: "lock_content option"

definition race_step :: "(int \<Rightarrow> proc_state) \<Rightarrow> nat \<Rightarrow> nat \<Rightarrow> bool \<Rightarrow> race \<Rightarrow> race" where
  "race_step ptable pidA pidB first r =
     (if first
      then (case step ptable pidA (pcA r) (lock r) of (p, l) \<Rightarrow> r\<lparr>pcA := p, lock := l\<rparr>)
      else (case step ptable pidB (pcB r) (lock r) of (p, l) \<Rightarrow> r\<lparr>pcB := p, lock := l\<rparr>))"

definition race_run :: "(int \<Rightarrow> proc_state) \<Rightarrow> nat \<Rightarrow> nat \<Rightarrow> bool list \<Rightarrow> race \<Rightarrow> race" where
  "race_run ptable pidA pidB schedule r = fold (race_step ptable pidA pidB) schedule r"

section \<open>The persisted run configuration (commandLineOptions.js)\<close>

text \<open>
  A JSON document; \<open>JObj\<close> lists the members in the order of the text. The options
  file is held as the document its text denotes: \<open>JSON.stringify\<close> writes it and
  \<open>JSON.parse\<close> reads the same document back.
\<close>

datatype json =
  JNull | JBool bool | JNum int | JStr string | JArr "json list" | JObj "(string \<times> json) list"

text \<open>
  What a property read can yield on a parsed document: \<open>undefined\<close>, a parsed value,
  or a built-in object of the runtime reached through the prototype chain.
\<close>

datatype jsval = Undefined | Builtin string | Value json

definition typeof :: "jsval \<Rightarrow> string" where
  "typeof v =
     (case v of
        Undefined \<Rightarrow> ''undefined''
      | Builtin b \<Rightarrow> (if b = ''Object.prototype'' then ''object'' else ''function'')
      | Value j \<Rightarrow>
          (case j of
             JNull \<Rightarrow> ''object''
           | JBool _ \<Rightarrow> ''boolean''
           | JNum _ \<Rightarrow> ''number''
           | JStr _ \<Rightarrow> ''string''
           | JArr _ \<Rightarrow> ''object''
           | JObj _ \<Rightarrow> ''object''))"

text \<open>
  The properties every object created by \<open>JSON.parse\<close> inherits from
  \<open>Object.prototype\<close>: the accessor \<open>__proto__\<close>, which yields the prototype itself,
  \<open>constructor\<close>, which is the function \<open>Object\<close>, and the standard methods.
\<close>

definition object_prototype :: "string \<Rightarrow> jsval" where
  "object_prototype k =
     (if k = ''__proto__'' then Builtin ''Object.prototype''
      else if k = ''constructor'' then Builtin ''Object''
      else if k \<in> set [''hasOwnProperty'', ''isPrototypeOf'', ''propertyIsEnumerable'',
                  ''toLocaleString'', ''toString'', ''valueOf'']
      then Builtin k
      else Undefined)"

text \<open>
  \<open>options[k]\<close>: the object's own member (the last one, when the text repeats a key),
  and otherwise what the prototype provides.
\<close>

definition get_property :: "(string \<times> json) list \<Rightarrow> string \<Rightarrow> jsval" where
  "get_property members k =
     (case map_of (rev members) k of
        Some v \<Rightarrow> Value v
      | None \<Rightarrow> object_prototype k)"

record options =
  executionClient :: string
  consensusClient :: string
  executionPeerPort :: int
  consensusPeerPorts :: "int option list"
  consensusCheckpoint :: "string option"
  installDir :: string
  owner :: "string option"
  validatorEnabled :: bool
  feeRecipient :: "string option"
  graffiti :: string
  validatorKeysDir :: "string option"
  mevBoostEnabled :: bool

definition nullable :: "string option \<Rightarrow> json" where
  "nullable v = (case v of None \<Rightarrow> JNull | Some x \<Rightarrow> JStr x)"

definition port_json :: "int option \<Rightarrow> json" where
  "port_json v = (case v of None \<Rightarrow> JNull | Some n \<Rightarrow> JNum n)"

datatype options_file = Missing | Malformed | JsonText json

definition saveOptionsToFile :: "options \<Rightarrow> options_file" where
  "saveOptionsToFile opts = JsonText (JObj
     [(''executionClient'', JStr (executionClient opts)),
      (''consensusClient'', JStr (consensusClient opts)),
      (''executionPeerPort'', JNum (executionPeerPort opts)),
      (''consensusPeerPorts'', JArr (map port_json (consensusPeerPorts opts))),
      (''consensusCheckpoint'', nullable (consensusCheckpoint opts)),
      (''installDir'', JStr (installDir opts)),
      (''owner'', nullable (owner opts)),
      (''validatorEnabled'', JBool (validatorEnabled opts)),
      (''feeRecipient'', nullable (feeRecipient opts)),
      (''graffiti'', JStr (graffiti opts)),
      (''validatorKeysDir'', nullable (validatorKeysDir opts)),
      (''mevBoostEnabled'', JBool (mevBoostEnabled opts))])"

datatype load_error =
  SyntaxError | RootNotObject | SuspiciousKeys | NotString string | NotBoolean string
  | PortNotNumber | PortsNotArray

definition stringFields :: "string list" where
  "stringFields = [''executionClient'', ''consensusClient'', ''consensusCheckpoint'',
     ''installDir'', ''owner'', ''feeRecipient'', ''graffiti'', ''validatorKeysDir'']"

definition boolFields :: "string list" where
  "boolFields = [''validatorEnabled'', ''mevBoostEnabled'']"

definition isArray :: "jsval \<Rightarrow> bool" where
  "isArray v = (case v of Value (JArr _) \<Rightarrow> True | _ \<Rightarrow> False)"

text \<open>
  loadOptionsFromFile: \<open>Inl\<close> is the error thrown, \<open>Inr\<close> the value returned
  (\<open>undefined\<close> when there is no file).
\<close>

definition loadOptionsFromFile :: "options_file \<Rightarrow> load_error + jsval" where
  "loadOptionsFromFile file =
     (case file of
        Missing \<Rightarrow> Inr Undefined
      | Malformed \<Rightarrow> Inl SyntaxError
      | JsonText j \<Rightarrow>
          (case j of
             JObj members \<Rightarrow>
               if get_property members ''__proto__'' \<noteq> Undefined
                  \<or> get_property members ''constructor'' \<noteq> Undefined
               then Inl SuspiciousKeys
               else
                 (case find (\<lambda>field. get_property members field \<noteq> Undefined
                            \<and> get_property members field \<noteq> Value JNull
                            \<and> typeof (get_property members field) \<noteq> ''string'') stringFields of
                    Some field \<Rightarrow> Inl (NotString field)
                  | None \<Rightarrow>
                 (case find (\<lambda>field. get_property members field \<noteq> Undefined
                            \<and> typeof (get_property members field) \<noteq> ''boolean'') boolFields of
                    Some field \<Rightarrow> Inl (NotBoolean field)
                  | None \<Rightarrow>
                      if get_property members ''executionPeerPort'' \<noteq> Undefined
                         \<and> typeof (get_property members ''executionPeerPort'') \<noteq> ''number''
                      then Inl PortNotNumber
                      else if get_property members ''consensusPeerPorts'' \<noteq> Undefined
                         \<and> \<not> isArray (get_property members ''consensusPeerPorts'')
                      then Inl PortsNotArray
                      else Inr (Value j)))
           | _ \<Rightarrow> Inl RootNotObject))"

text \<open>The defaults of commandLineOptions.js with the Lighthouse ports.\<close>

definition default_options :: options where
  "default_options = \<lparr> executionClient = ''reth'', consensusClient = ''lighthouse'',
     executionPeerPort = 30303, consensusPeerPorts = [Some 9000, Some 9001],
     consensusCheckpoint = None, installDir = ''/home/node/buidlguidl-client'',
     owner = None, validatorEnabled = False, feeRecipient = None, graffiti = ''BuidlGuidl'',
     validatorKeysDir = None, mevBoostEnabled = False \<rparr>"

text \<open>
  Two supervisors are running, processes 4242 and 4243, each the leader of its own
  process group.
\<close>

definition demo_ptable :: "int \<Rightarrow> proc_state" where
  "demo_ptable n =
     (if n = 0 \<or> n = 4242 \<or> n = 4243 \<or> n = - 4242 \<or> n = - 4243 \<or> n = - 1
      then Signalable else NoProcess)"

text \<open>No supervisor is running but the caller, process 4243, which has just started.\<close>

definition lone_ptable :: "int \<Rightarrow> proc_state" where
  "lone_ptable n = (if n = 0 \<or> n = 4243 \<or> n = - 4243 then Signalable else NoProcess)"

section \<open>The keystore-password prompt (keyManager.js)\<close>

text \<open>
  The operator's terminal is the list of lines still to be typed;
  \<open>readlineSync.question\<close> takes the next one (the empty string at end of input).
  \<open>passwordFile\<close> is the content of the password file (\<open>None\<close>: no such file),
  \<open>parentDir\<close> says whether its directory exists.
\<close>

record prompt =
  stdin :: "string list"
  passwordFile :: "string option"
  parentDir :: bool

text \<open>\<open>process.exit(code)\<close> or a normal return.\<close>

datatype outcome = Exit nat | Returned

definition question :: "prompt \<Rightarrow> string \<times> prompt" where
  "question st = (case stdin st of [] \<Rightarrow> ([], st) | l # ls \<Rightarrow> (l, st\<lparr>stdin := ls\<rparr>))"

text \<open>
  \<open>if (!fs.existsSync(dir)) fs.mkdirSync(dir, ...); fs.writeFileSync(passwordPath,
  password, { mode: 0o600 })\<close>
\<close>

definition write_password :: "string \<Rightarrow> prompt \<Rightarrow> prompt" where
  "write_password password st = st\<lparr>parentDir := True, passwordFile := Some password\<rparr>"

text \<open>promptAndSavePassword as ethereum\_client\_scripts/keyManager.js has it.\<close>

definition promptAndSavePassword :: "prompt \<Rightarrow> outcome \<times> prompt" where
  "promptAndSavePassword st =
     (if passwordFile st \<noteq> None then (Returned, st)
      else
        case question st of (password, st1) \<Rightarrow>
        case question st1 of (confirmPassword, st2) \<Rightarrow>
          if password \<noteq> confirmPassword then (Exit 1, st2)
          else (Returned, write_password password st2))"

text \<open>
  promptAndSavePassword as the second copy of keyManager.js (unnamed part 4) has it,
  with its option \<open>firstTime\<close>: generateValidatorKeys and importValidatorKeys pass
  true, setupValidatorKeys on existing keystores passes nothing (false).
\<close>

definition promptAndSavePassword_firstTime :: "bool \<Rightarrow> prompt \<Rightarrow> outcome \<times> prompt" where
  "promptAndSavePassword_firstTime firstTime st =
     (case question st of (password, st1) \<Rightarrow>
        if length password < 8 then (Exit 1, st1)
        else if firstTime
        then (case question st1 of (confirmPassword, st2) \<Rightarrow>
                if password \<noteq> confirmPassword then (Exit 1, st2)
                else (Returned, write_password password st2))
        else (Returned, write_password password st1))"

section \<open>Per-validator secret files (lighthouse\_validator.js)\<close>

text \<open>
  An absolute, normalised path is the list of its components; a last component that is
  empty stands for a trailing slash. \<open>path.join(dir, name)\<close> joins with a slash and
  normalises: empty components and \<open>.\<close> are dropped, \<open>..\<close> removes the component
  before it (at the root it is dropped), and a trailing slash of \<open>name\<close> is kept.
\<close>

type_synonym path = "string list"

fun split_slash :: "string \<Rightarrow> string list" where
  "split_slash [] = [[]]"
| "split_slash (c # cs) =
     (if c = CHR ''/'' then [] # split_slash cs
      else (case split_slash cs of [] \<Rightarrow> [[c]] | w # ws \<Rightarrow> (c # w) # ws))"

definition normalize_step :: "path \<Rightarrow> string \<Rightarrow> path" where
  "normalize_step acc seg =
     (if seg = [] \<or> seg = ''.'' then acc
      else if seg = ''..'' then butlast acc
      else acc @ [seg])"

definition trailing_slash :: "string \<Rightarrow> bool" where
  "trailing_slash name = (name \<noteq> [] \<and> last name = CHR ''/'')"

definition path_join :: "path \<Rightarrow> string \<Rightarrow> path" where
  "path_join dir name =
     foldl normalize_step dir (split_slash name) @ (if trailing_slash name then [[]] else [])"

text \<open>The directories and the files (with their content) of the file system.\<close>

record fsys =
  dirs :: "path list"
  files :: "(path \<times> string) list"

definition existsSync :: "fsys \<Rightarrow> path \<Rightarrow> bool" where
  "existsSync fs p = (p \<in> set (dirs fs) \<or> p \<in> set (map fst (files fs)))"

text \<open>\<open>fs.mkdirSync(dir, { recursive: true })\<close>: the directory and its ancestors.\<close>

definition mkdirSync :: "path \<Rightarrow> fsys \<Rightarrow> fsys" where
  "mkdirSync p fs = fs\<lparr>dirs := dirs fs @ filter (\<lambda>d. d \<notin> set (dirs fs)) (prefixes p)\<rparr>"

text \<open>
  \<open>fs.writeFileSync(file, data)\<close>: \<open>None\<close> when it throws (the path ends with a
  slash, the file's directory does not exist, or the path is a directory).
\<close>

definition writeFileSync :: "path \<Rightarrow> string \<Rightarrow> fsys \<Rightarrow> fsys option" where
  "writeFileSync p contents fs =
     (if p \<noteq> [] \<and> last p \<noteq> [] \<and> butlast p \<in> set (dirs fs) \<and> p \<notin> set (dirs fs)
      then Some (fs\<lparr>files := (p, contents) # filter (\<lambda>f. fst f \<noteq> p) (files fs)\<rparr>)
      else None)"

text \<open>
  What \<open>JSON.parse\<close> makes of a keystore file: a syntax error, or an object whose
  \<open>pubkey\<close> member, if it has one, is a string.
\<close>

datatype keystore = Unparsable | Keystore "string option"

text \<open>The body of the loop over the keystore files, with its try and catch.\<close>

definition write_secret :: "path \<Rightarrow> string \<Rightarrow> fsys \<Rightarrow> keystore \<Rightarrow> fsys" where
  "write_secret secretsDir password fs ks =
     (case ks of
        Unparsable \<Rightarrow> fs
      | Keystore None \<Rightarrow> fs
      | Keystore (Some pubkey) \<Rightarrow>
          if pubkey = [] then fs
          else (case writeFileSync (path_join secretsDir (''0x'' @ pubkey)) password fs of
                  None \<Rightarrow> fs
                | Some fs' \<Rightarrow> fs'))"

text \<open>
  The population of the secrets directory: \<open>keystoresDir\<close> is the listing of the
  keystores directory, each file name with its parsed content (\<open>None\<close>: the directory
  does not exist).
\<close>

definition populate_secrets ::
  "path \<Rightarrow> path \<Rightarrow> (string \<times> keystore) list option \<Rightarrow> fsys \<Rightarrow> fsys" where
  "populate_secrets passwordFilePath secretsDir keystoresDir fs =
     (case (map_of (files fs) passwordFilePath, keystoresDir) of
        (Some password, Some listing) \<Rightarrow>
          (let fs1 = (if \<not> existsSync fs secretsDir then mkdirSync secretsDir fs else fs);
               keystoreFiles = filter (\<lambda>f. prefix ''keystore'' (fst f) \<and> suffix ''.json'' (fst f)) listing
           in foldl (write_secret secretsDir password) fs1 (map snd keystoreFiles))
      | _ \<Rightarrow> fs)"

text \<open>The allowed-character policy the specification asks for: hexadecimal digits only.\<close>

definition is_hex :: "string \<Rightarrow> bool" where
  "is_hex s = (s \<noteq> [] \<and> list_all (\<lambda>c. c \<in> set ''0123456789abcdefABCDEF'') s)"

text \<open>A secure directory on tmpfs holding the master password.\<close>

definition demo_secure_dir :: path where
  "demo_secure_dir = [''dev'', ''shm'', ''bgclient-4242'']"

definition demo_fs :: fsys where
  "demo_fs = \<lparr> dirs = [[], [''dev''], [''dev'', ''shm''], demo_secure_dir],
               files = [(demo_secure_dir @ [''password.txt''], ''correct horse'')] \<rparr>"

section \<open>Checkpoint selection (checkpointHealthCheck.js)\<close>

record candidate =
  url :: string
  reachable :: bool
  headSlotAge :: nat
  latency :: nat

definition eligible :: "nat \<Rightarrow> candidate \<Rightarrow> bool" where
  "eligible threshold c = (reachable c \<and> headSlotAge c < threshold)"

text \<open>Fresher first (a smaller age of the head slot), lower latency on a tie.\<close>

definition ranks_before :: "candidate \<Rightarrow> candidate \<Rightarrow> bool" where
  "ranks_before a b =
     (headSlotAge a < headSlotAge b \<or> (headSlotAge a = headSlotAge b \<and> latency a \<le> latency b))"

text \<open>
  Modelled from the spec: checkpointHealthCheck.js, which index.js imports
  \<open>selectCheckpointUrlForLighthouse\<close> and \<open>selectCheckpointUrlForPrysm\<close> from, is not
  among the sources. The specification's \<open>selectBest\<close> ranks the eligible candidates by
  freshness first and latency as tiebreak and returns the URL of the top-ranked one, or
  "none found" (\<open>None\<close>) when no candidate is eligible. The probes' results are the
  fields of the candidates.
\<close>

definition selectBest :: "nat \<Rightarrow> candidate list \<Rightarrow> string option" where
  "selectBest threshold candidates =
     (case filter (eligible threshold) candidates of
        [] \<Rightarrow> None
      | c # cs \<Rightarrow> Some (url (foldl (\<lambda>best x. if ranks_before best x then best else x) c cs)))"

definition demo_candidates :: "candidate list" where
  "demo_candidates =
     [\<lparr>url = ''https://a.example'', reachable = True, headSlotAge = 3, latency = 80\<rparr>,
      \<lparr>url = ''https://b.example'', reachable = True, headSlotAge = 1, latency = 200\<rparr>,
      \<lparr>url = ''https://c.example'', reachable = True, headSlotAge = 1, latency = 120\<rparr>,
      \<lparr>url = ''https://d.example'', reachable = False, headSlotAge = 0, latency = 5\<rparr>]"

section \<open>Properties of the supervisor\<close>

subsection \<open>What each step of handleExit leaves unchanged\<close>

lemma set_exited_frame [simp]:
  "isExiting (set_exited r s) = isExiting s"
  "timers (set_exited r s) = timers s"
  "killCalls (set_exited r s) = killCalls s"
  "alerts (set_exited r s) = alerts s"
  "exitCode (set_exited r s) = exitCode s"
  "lockFile (set_exited r s) = lockFile s"
  "pid (set_exited r s) = pid s"
  "shutdownListeners (set_exited r s) = shutdownListeners s"
  "secureDirPath (set_exited r s) = secureDirPath s"
  "macRamDiskDevice (set_exited r s) = macRamDiskDevice s"
  "secureDirOnDisk (set_exited r s) = secureDirOnDisk s"
  by (cases r; simp add: set_exited_def)+

lemma attach_listeners_frame [simp]:
  "isExiting (attach_listeners r s) = isExiting s"
  "timers (attach_listeners r s) = timers s"
  "killCalls (attach_listeners r s) = killCalls s"
  "alerts (attach_listeners r s) = alerts s"
  "exitCode (attach_listeners r s) = exitCode s"
  "lockFile (attach_listeners r s) = lockFile s"
  "pid (attach_listeners r s) = pid s"
  "secureDirPath (attach_listeners r s) = secureDirPath s"
  "macRamDiskDevice (attach_listeners r s) = macRamDiskDevice s"
  "secureDirOnDisk (attach_listeners r s) = secureDirOnDisk s"
  by (simp_all add: attach_listeners_def)

lemma schedule_kill_frame [simp]:
  "isExiting (schedule_kill r ms s) = isExiting s"
  "killCalls (schedule_kill r ms s) = killCalls s"
  "alerts (schedule_kill r ms s) = alerts s"
  "exitCode (schedule_kill r ms s) = exitCode s"
  "lockFile (schedule_kill r ms s) = lockFile s"
  "pid (schedule_kill r ms s) = pid s"
  "shutdownListeners (schedule_kill r ms s) = shutdownListeners s"
  "secureDirPath (schedule_kill r ms s) = secureDirPath s"
  "macRamDiskDevice (schedule_kill r ms s) = macRamDiskDevice s"
  "secureDirOnDisk (schedule_kill r ms s) = secureDirOnDisk s"
  by (simp_all add: schedule_kill_def)

lemma checkExit_frame [simp]:
  "isExiting (checkExit s) = isExiting s"
  "timers (checkExit s) = timers s"
  "killCalls (checkExit s) = killCalls s"
  "alerts (checkExit s) = alerts s"
  "pid (checkExit s) = pid s"
  "shutdownListeners (checkExit s) = shutdownListeners s"
  "secureDirPath (checkExit s) = secureDirPath s"
  "macRamDiskDevice (checkExit s) = macRamDiskDevice s"
  "secureDirOnDisk (checkExit s) = secureDirOnDisk s"
  by (simp_all add: checkExit_def process_exit_def removeLockFile_def)

lemma deleteOptionsFile_frame [simp]:
  "isExiting (deleteOptionsFile s) = isExiting s"
  "timers (deleteOptionsFile s) = timers s"
  "killCalls (deleteOptionsFile s) = killCalls s"
  "alerts (deleteOptionsFile s) = alerts s"
  "exitCode (deleteOptionsFile s) = exitCode s"
  "lockFile (deleteOptionsFile s) = lockFile s"
  "pid (deleteOptionsFile s) = pid s"
  "shutdownListeners (deleteOptionsFile s) = shutdownListeners s"
  "secureDirPath (deleteOptionsFile s) = secureDirPath s"
  "macRamDiskDevice (deleteOptionsFile s) = macRamDiskDevice s"
  "secureDirOnDisk (deleteOptionsFile s) = secureDirOnDisk s"
  by (simp_all add: deleteOptionsFile_def)

lemma running_set_exited:
  "running (set_exited r' s) r = (r \<noteq> r' \<and> running s r)"
  by (cases r; cases r'; simp add: running_def set_exited_def child_of_def exited_of_def)

lemma running_attach_listeners [simp]:
  "running (attach_listeners r' s) r = running s r"
proof (cases "child_of r' s \<and> \<not> exited_of r' s")
  case True
  then show ?thesis
    by (cases r; simp add: attach_listeners_def running_def child_of_def exited_of_def)
next
  case False
  then have "\<not> running s r'" by (simp add: running_def)
  with False show ?thesis
    by (auto simp add: attach_listeners_def running_set_exited)
qed

lemma running_schedule_kill [simp]:
  "running (schedule_kill r' ms s) r = running s r"
  by (cases r; simp add: schedule_kill_def running_def child_of_def exited_of_def)

lemma running_deleteOptionsFile [simp]:
  "running (deleteOptionsFile s) r = running s r"
  by (cases r; simp add: deleteOptionsFile_def running_def child_of_def exited_of_def)

lemma running_isExiting_update [simp]:
  "running (s\<lparr>isExiting := b\<rparr>) r = running s r"
  by (cases r; simp add: running_def child_of_def exited_of_def)

lemma mark_not_in_use_frame [simp]:
  "isExiting (mark_not_in_use r s) = isExiting s"
  "timers (mark_not_in_use r s) = timers s"
  "killCalls (mark_not_in_use r s) = killCalls s"
  "alerts (mark_not_in_use r s) = alerts s"
  "exitCode (mark_not_in_use r s) = exitCode s"
  "lockFile (mark_not_in_use r s) = lockFile s"
  "pid (mark_not_in_use r s) = pid s"
  "shutdownListeners (mark_not_in_use r s) = shutdownListeners s"
  "secureDirPath (mark_not_in_use r s) = secureDirPath s"
  "macRamDiskDevice (mark_not_in_use r s) = macRamDiskDevice s"
  "secureDirOnDisk (mark_not_in_use r s) = secureDirOnDisk s"
  by (simp_all add: mark_not_in_use_def)

lemma running_mark_not_in_use [simp]:
  "running (mark_not_in_use r' s) r = running s r"
proof (cases "child_of r' s")
  case True
  then show ?thesis by (simp add: mark_not_in_use_def)
next
  case False
  then have "\<not> running s r'" by (simp add: running_def)
  with False show ?thesis by (auto simp add: mark_not_in_use_def running_set_exited)
qed

lemma timers_schedule_kill:
  "timers (schedule_kill r ms s) = (if running s r then setTimeout ms r (timers s) else timers s)"
  by (simp add: schedule_kill_def running_def)

lemma handleExit_primary_timers:
  assumes "\<not> isExiting s" "lockFile s = Some c" "parseInt c = Some (int (pid s))" "timers s = []"
  shows "timers (handleExit t s) = map (\<lambda>r. (grace_delay r, r)) (shutdown_order s)"
proof -
  have "timers (handleExit t s) =
    (let q0 = [];
         q1 = (if running s Validator then setTimeout 500 Validator q0 else q0);
         q2 = (if running s Execution then setTimeout 750 Execution q1 else q1);
         q3 = (if running s Consensus then setTimeout 750 Consensus q2 else q2)
     in (if running s Relay then setTimeout 750 Relay q3 else q3))"
    using assms
    by (simp add: handleExit_def Let_def timers_schedule_kill)
  also have "\<dots> = map (\<lambda>r. (grace_delay r, r)) (shutdown_order s)"
    by (simp add: shutdown_order_def setTimeout_def grace_delay_def Let_def)
  finally show ?thesis .
qed

lemma handleExit_primary_isExiting:
  assumes "\<not> isExiting s" "lockFile s = Some c" "parseInt c = Some (int (pid s))"
  shows "isExiting (handleExit t s)"
  using assms by (simp add: handleExit_def Let_def)

lemma handleExit_idem: "handleExit t2 (handleExit t1 s) = handleExit t1 s"
proof (cases "isExiting s")
  case True
  then show ?thesis by (simp add: handleExit_def)
next
  case False
  show ?thesis
  proof (cases "lockFile s")
    case None
    with False show ?thesis by (simp add: handleExit_def process_exit_def)
  next
    case (Some c)
    show ?thesis
    proof (cases "parseInt c = Some (int (pid s))")
      case ne: False
      with False Some show ?thesis by (simp add: handleExit_def process_exit_def)
    next
      case True
      have "isExiting (handleExit t1 s)"
        using False Some True by (rule handleExit_primary_isExiting)
      then show ?thesis by (simp add: handleExit_def[of t2])
    qed
  qed
qed

lemma spawn_exit_listener_frame [simp]:
  "isExiting (spawn_exit_listener c code s) = isExiting s"
  "timers (spawn_exit_listener c code s) = timers s"
  "killCalls (spawn_exit_listener c code s) = killCalls s"
  "exitCode (spawn_exit_listener c code s) = exitCode s"
  "shutdownListeners (spawn_exit_listener c code s) = shutdownListeners s"
  "secureDirPath (spawn_exit_listener c code s) = secureDirPath s"
  "macRamDiskDevice (spawn_exit_listener c code s) = macRamDiskDevice s"
  "secureDirOnDisk (spawn_exit_listener c code s) = secureDirOnDisk s"
  by (simp_all add: spawn_exit_listener_def Let_def split: option.splits)

lemma shutdown_listener_frame [simp]:
  "isExiting (shutdown_listener r s) = isExiting s"
  "timers (shutdown_listener r s) = timers s"
  "killCalls (shutdown_listener r s) = killCalls s"
  "alerts (shutdown_listener r s) = alerts s"
  "secureDirPath (shutdown_listener r s) = secureDirPath s"
  "macRamDiskDevice (shutdown_listener r s) = macRamDiskDevice s"
  "secureDirOnDisk (shutdown_listener r s) = secureDirOnDisk s"
  by (simp_all add: shutdown_listener_def)

lemma on_role_frame [simp]:
  "isExiting (on_role c shutdown_listener s) = isExiting s"
  "timers (on_role c shutdown_listener s) = timers s"
  "killCalls (on_role c shutdown_listener s) = killCalls s"
  "alerts (on_role c shutdown_listener s) = alerts s"
  "secureDirPath (on_role c shutdown_listener s) = secureDirPath s"
  "macRamDiskDevice (on_role c shutdown_listener s) = macRamDiskDevice s"
  "secureDirOnDisk (on_role c shutdown_listener s) = secureDirOnDisk s"
  by (simp_all add: on_role_def split: option.splits)

lemma handleExit_secure_frame:
  "secureDirPath (handleExit t s) = secureDirPath s
   \<and> macRamDiskDevice (handleExit t s) = macRamDiskDevice s
   \<and> secureDirOnDisk (handleExit t s) = secureDirOnDisk s"
  by (simp add: handleExit_def Let_def process_exit_def split: option.splits)

lemma handleExit_alerts_frame: "alerts (handleExit t s) = alerts s"
  by (simp add: handleExit_def Let_def process_exit_def split: option.splits)

lemma on_termination_secure_frame:
  "secureDirPath (on_termination t s) = secureDirPath s
   \<and> macRamDiskDevice (on_termination t s) = macRamDiskDevice s
   \<and> secureDirOnDisk (on_termination t s) = secureDirOnDisk s"
  by (cases t; simp add: on_termination_def handleExit_secure_frame)

lemma on_termination_exiting: "isExiting s \<Longrightarrow> on_termination t s = s"
  by (cases t; simp add: on_termination_def handleExit_def)

lemma deliver_secure_frame:
  "secureDirPath (deliver e s) = secureDirPath s
   \<and> macRamDiskDevice (deliver e s) = macRamDiskDevice s
   \<and> secureDirOnDisk (deliver e s) = secureDirOnDisk s"
  by (cases e; simp add: deliver_def on_termination_secure_frame Let_def split: list.splits)

lemma run_secure_frame:
  "secureDirPath (run es s) = secureDirPath s
   \<and> macRamDiskDevice (run es s) = macRamDiskDevice s
   \<and> secureDirOnDisk (run es s) = secureDirOnDisk s"
  unfolding run_def
  by (induction es arbitrary: s) (simp_all add: deliver_secure_frame)

lemma deliver_kill_inv: "kill_inv L s \<Longrightarrow> kill_inv L (deliver e s)"
  by (cases e; auto simp add: kill_inv_def deliver_def on_termination_exiting Let_def split: list.splits)

lemma run_kill_inv: "kill_inv L s \<Longrightarrow> kill_inv L (run es s)"
  unfolding run_def
  by (induction es arbitrary: s) (simp_all add: deliver_kill_inv)

lemma run_step: "run (e # es) s = run es (deliver e s)"
  by (simp add: run_def)

lemma run_timer_fires:
  "exitCode s = None \<Longrightarrow>
   killCalls (run (replicate n TimerFire) s) = killCalls s @ map snd (take n (timers s))"
proof (induction n arbitrary: s)
  case 0
  then show ?case by (simp add: run_def)
next
  case (Suc n)
  show ?case
  proof (cases "timers s")
    case Nil
    with Suc.prems have "deliver TimerFire s = s" by (simp add: deliver_def)
    with Suc Nil show ?thesis by (simp add: run_step)
  next
    case (Cons t ts)
    with Suc.prems have d: "deliver TimerFire s = s\<lparr>timers := ts, killCalls := killCalls s @ [snd t]\<rparr>"
      by (simp add: deliver_def)
    have "exitCode (deliver TimerFire s) = None" using Suc.prems d by simp
    from Suc.IH[OF this] d Cons show ?thesis by (simp add: run_step)
  qed
qed

lemma run_dead: "exitCode s \<noteq> None \<Longrightarrow> run es s = s"
  unfolding run_def by (induction es) (simp_all add: deliver_def)

lemma handleExit_primary_killCalls:
  "killCalls (handleExit t s) = killCalls s"
  by (simp add: handleExit_def Let_def process_exit_def split: option.splits)

lemma exited_attach_same [simp]:
  "exited_of r (attach_listeners r s) = (\<not> running s r)"
  by (cases r; simp add: attach_listeners_def running_def exited_of_def set_exited_def)

lemma exited_attach_other [simp]:
  "r \<noteq> r' \<Longrightarrow> exited_of r (attach_listeners r' s) = exited_of r s"
  by (cases r; cases r'; simp add: attach_listeners_def exited_of_def set_exited_def)

lemma exited_schedule_kill [simp]:
  "exited_of r (schedule_kill r' ms s) = exited_of r s"
  by (cases r; simp add: schedule_kill_def exited_of_def)

lemma exitCode_checkExit:
  "exitCode (checkExit s) =
     (if exited_of Execution s \<and> exited_of Consensus s \<and> exited_of Validator s \<and> exited_of Relay s
      then Some 0 else exitCode s)"
  by (simp add: checkExit_def exited_of_def process_exit_def removeLockFile_def)

lemma handleExit_primary_exitCode:
  assumes "\<not> isExiting s" "lockFile s = Some c" "parseInt c = Some (int (pid s))"
  shows "exitCode (handleExit t s) = (if shutdown_order s = [] then Some 0 else exitCode s)"
  using assms
  by (simp add: handleExit_def Let_def exitCode_checkExit shutdown_order_def)

lemma alerts_deliver_child_exit:
  assumes "exitCode s = None"
  shows "alerts (deliver (ChildExit c code) s) =
     (case code of None \<Rightarrow> alerts s
      | Some n \<Rightarrow> if isExiting s then alerts s else alerts s @ [CrashAlert (alert_label c) n])"
  using assms
  by (simp add: deliver_def Let_def spawn_exit_listener_def split: option.splits)

lemma alerts_spawn: "alerts (spawn_exit_listener c code s) =
     (case code of None \<Rightarrow> alerts s
      | Some n \<Rightarrow> if isExiting s then alerts s else alerts s @ [CrashAlert (alert_label c) n])"
  by (simp add: spawn_exit_listener_def Let_def split: option.splits)

lemma alerts_deliver_other:
  assumes "\<And>c code. e \<noteq> ChildExit c code"
  shows "alerts (deliver e s) = alerts s"
proof (cases e)
  case (Terminate t)
  then show ?thesis
    by (cases t; simp add: deliver_def on_termination_def handleExit_alerts_frame)
next
  case (ChildExit c code)
  with assms show ?thesis by blast
next
  case (ChildClose c)
  then show ?thesis by (simp add: deliver_def)
next
  case TimerFire
  then show ?thesis by (simp add: deliver_def split: list.splits)
next
  case IntervalTick
  then show ?thesis by (simp add: deliver_def)
qed

lemma on_termination_eq: "on_termination t s = handleExit t s"
  by (cases t; simp add: on_termination_def handleExit_def)

subsection \<open>Crash alerts\<close>

text \<open>
  Claim C10. A crash alert for a supervised child is emitted exactly when the child exits
  while no shutdown was requested (\<open>isExiting\<close> is false) and its exit code is not
  null. On a live supervisor, the exit of a child adds an alert if and only if both
  conditions hold, and then it adds exactly one, for that child and that code; a child
  terminated by a signal (exit code null) and a child exiting during a requested
  shutdown add none, also when handleExit has attached its own listeners; and no other
  event (a termination signal, a close event, a timer, the polling interval) adds one.
\<close>

theorem crash_alert_exactly_when:
  assumes "exitCode s = None"
  shows "(alerts (deliver (ChildExit c code) s) \<noteq> alerts s) = (\<not> isExiting s \<and> code \<noteq> None)
    \<and> (\<not> isExiting s \<longrightarrow>
         alerts (deliver (ChildExit c (Some n)) s) = alerts s @ [CrashAlert (alert_label c) n])
    \<and> alerts (deliver (ChildExit c None) s) = alerts s
    \<and> (isExiting s \<longrightarrow> alerts (deliver (ChildExit c code) s) = alerts s)
    \<and> alerts (deliver (Terminate t) s) = alerts s
    \<and> alerts (deliver (ChildClose c) s) = alerts s
    \<and> alerts (deliver TimerFire s) = alerts s
    \<and> alerts (deliver IntervalTick s) = alerts s"
  using assms
  by (simp add: alerts_deliver_child_exit alerts_deliver_other split: option.splits)

theorem crash_alert_exactly_when_witness:
  "exitCode demo_proc = None
   \<and> alerts (deliver (ChildExit ValidatorClient (Some 1)) demo_proc)
       = [CrashAlert ''CRITICAL: Validator client'' 1]
   \<and> alerts (deliver (ChildExit ValidatorClient None) demo_proc) = []
   \<and> alerts (deliver (ChildExit (Client ''reth'') (Some 1)) (handleExit SIGINT demo_proc)) = []"
proof -
  have e: "exitCode demo_proc = None" by (simp add: demo_proc_def)
  have a: "alerts demo_proc = []" "\<not> isExiting demo_proc" by (simp_all add: demo_proc_def)
  have p: "parseInt (PidText 4242) = Some (int (pid demo_proc))"
    by (simp add: parseInt_def demo_proc_def)
  have l: "lockFile demo_proc = Some (PidText 4242)" by (simp add: demo_proc_def)
  have x: "isExiting (handleExit SIGINT demo_proc)"
    using a(2) l p by (rule handleExit_primary_isExiting)
  have so: "shutdown_order demo_proc = [Validator, Execution, Consensus, Relay]"
    by (simp add: shutdown_order_def running_def child_of_def exited_of_def demo_proc_def)
  have e2: "exitCode (handleExit SIGINT demo_proc) = None"
    using handleExit_primary_exitCode[OF a(2) l p, of SIGINT] so e by simp
  have a2: "alerts (handleExit SIGINT demo_proc) = []"
    using a(1) by (simp add: handleExit_alerts_frame)
  from crash_alert_exactly_when[OF e, of ValidatorClient "Some 1" 1 SIGINT]
       crash_alert_exactly_when[OF e2, of "Client ''reth''" "Some 1" 1 SIGINT]
       e a x a2
  show ?thesis by (simp add: alert_label_def)
qed

subsection \<open>Idempotent shutdown\<close>

text \<open>
  Claim C9. requestShutdown (handleExit) is idempotent: a second call while a shutdown is
  in progress is a no-op. Calling handleExit twice in succession, with any two exit
  types, leaves the supervisor in the state the first call produced: the same flags, the
  same attached listeners and the same queue of pending kill signals, so no signal is
  scheduled twice. The same holds for two termination events delivered one after the
  other.
\<close>

theorem handleExit_idempotent:
  "handleExit t2 (handleExit t1 s) = handleExit t1 s
   \<and> deliver (Terminate t2) (deliver (Terminate t1) s) = deliver (Terminate t1) s
   \<and> timers (handleExit t2 (handleExit t1 s)) = timers (handleExit t1 s)"
  by (simp add: handleExit_idem deliver_def on_termination_eq)

theorem handleExit_idempotent_witness:
  "handleExit SIGTERM (handleExit SIGINT demo_proc) = handleExit SIGINT demo_proc
   \<and> timers (handleExit SIGTERM (handleExit SIGINT demo_proc))
       = [(500, Validator), (750, Execution), (750, Consensus), (750, Relay)]"
proof -
  have a: "\<not> isExiting demo_proc" "timers demo_proc = []" by (simp_all add: demo_proc_def)
  have p: "parseInt (PidText 4242) = Some (int (pid demo_proc))"
    by (simp add: parseInt_def demo_proc_def)
  have l: "lockFile demo_proc = Some (PidText 4242)" by (simp add: demo_proc_def)
  have so: "shutdown_order demo_proc = [Validator, Execution, Consensus, Relay]"
    by (simp add: shutdown_order_def running_def child_of_def exited_of_def demo_proc_def)
  have "timers (handleExit SIGINT demo_proc)
          = [(500, Validator), (750, Execution), (750, Consensus), (750, Relay)]"
    using handleExit_primary_timers[OF a(1) l p a(2), of SIGINT] so
    by (simp add: grace_delay_def)
  with handleExit_idempotent[of SIGTERM SIGINT demo_proc] show ?thesis by simp
qed

subsection \<open>Shutdown order\<close>

text \<open>
  Claim C5. handleExit drives shutdown in the fixed order validator, then execution and
  consensus, then relay, each signal after a grace delay. For a primary supervisor that
  is not yet exiting, handleExit schedules one SIGINT per child that is still running:
  the validator's after 500 ms and those of the execution client, the consensus client
  and MEV-Boost after 750 ms, in this order. Whatever events follow (timers firing,
  children exiting, further termination signals, polls), the kill calls made are always
  an initial part of the list validator, execution, consensus, relay restricted to the
  running children; once the timers have fired they are exactly that list. So the
  validator is signalled first and MEV-Boost only after the execution and consensus
  clients.
\<close>

theorem handleExit_shutdown_order:
  assumes "\<not> isExiting s" and "lockFile s = Some (PidText (pid s))"
    and "timers s = []" and "killCalls s = []" and "exitCode s = None"
  shows "timers (handleExit t s) = map (\<lambda>r. (grace_delay r, r)) (shutdown_order s)
     \<and> prefix (killCalls (run es (handleExit t s))) (shutdown_order s)
     \<and> killCalls (run (replicate 4 TimerFire) (handleExit t s)) = shutdown_order s"
proof -
  have p: "parseInt (PidText (pid s)) = Some (int (pid s))" by (simp add: parseInt_def)
  have tm: "timers (handleExit t s) = map (\<lambda>r. (grace_delay r, r)) (shutdown_order s)"
    using assms(1,2) p assms(3) by (rule handleExit_primary_timers)
  have ex: "isExiting (handleExit t s)"
    using assms(1,2) p by (rule handleExit_primary_isExiting)
  have kc: "killCalls (handleExit t s) = []"
    using assms(4) by (simp add: handleExit_primary_killCalls)
  have inv: "kill_inv (shutdown_order s) (handleExit t s)"
    using tm ex kc by (simp add: kill_inv_def comp_def)
  then have "kill_inv (shutdown_order s) (run es (handleExit t s))" by (rule run_kill_inv)
  then have pre: "prefix (killCalls (run es (handleExit t s))) (shutdown_order s)"
    unfolding kill_inv_def by (metis prefixI)
  have len: "length (shutdown_order s) \<le> 4"
    unfolding shutdown_order_def
    using length_filter_le[of "running s" "[Validator, Execution, Consensus, Relay]"] by simp
  have fire: "killCalls (run (replicate 4 TimerFire) (handleExit t s)) = shutdown_order s"
  proof (cases "exitCode (handleExit t s) = None")
    case True
    from run_timer_fires[OF True, of 4] kc tm len show ?thesis by (simp add: comp_def)
  next
    case False
    then have dead: "run (replicate 4 TimerFire) (handleExit t s) = handleExit t s"
      by (rule run_dead)
    from False assms(5) handleExit_primary_exitCode[OF assms(1,2) p, of t]
    have "shutdown_order s = []" by (simp split: if_splits)
    with dead kc show ?thesis by simp
  qed
  from tm pre fire show ?thesis by simp
qed

theorem handleExit_shutdown_order_witness:
  "\<not> isExiting demo_proc \<and> lockFile demo_proc = Some (PidText (pid demo_proc))
   \<and> timers demo_proc = [] \<and> killCalls demo_proc = [] \<and> exitCode demo_proc = None
   \<and> timers (handleExit SIGINT demo_proc)
       = [(500, Validator), (750, Execution), (750, Consensus), (750, Relay)]
   \<and> prefix (killCalls (run [TimerFire, ChildExit ValidatorClient None, Terminate SIGTERM,
                              TimerFire] (handleExit SIGINT demo_proc)))
        [Validator, Execution, Consensus, Relay]
   \<and> killCalls (run (replicate 4 TimerFire) (handleExit SIGINT demo_proc))
       = [Validator, Execution, Consensus, Relay]"
proof -
  have h: "\<not> isExiting demo_proc" "lockFile demo_proc = Some (PidText (pid demo_proc))"
    "timers demo_proc = []" "killCalls demo_proc = []" "exitCode demo_proc = None"
    by (simp_all add: demo_proc_def)
  have so: "shutdown_order demo_proc = [Validator, Execution, Consensus, Relay]"
    by (simp add: shutdown_order_def running_def child_of_def exited_of_def demo_proc_def)
  from handleExit_shutdown_order[OF h, of SIGINT
      "[TimerFire, ChildExit ValidatorClient None, Terminate SIGTERM, TimerFire]"] h so
  show ?thesis by (simp add: grace_delay_def)
qed

subsection \<open>Teardown of the secure directory\<close>

text \<open>
  No handler of the supervisor touches the secure directory: whatever events the process
  receives, the module variables of secureStore.js and the files of the secure
  directory are what they were.
\<close>

lemma no_event_cleans_secure_dir:
  "secureDirPath (run es s) = secureDirPath s \<and> secureDirOnDisk (run es s) = secureDirOnDisk s"
  by (simp add: run_secure_frame)

lemma cleanupSecureDir_removes_files:
  "secureDirPath s \<noteq> None \<Longrightarrow>
     secureDirOnDisk (cleanupSecureDir s) = None \<and> secureDirPath (cleanupSecureDir s) = None"
  by (auto simp add: cleanupSecureDir_def)

text \<open>
  Claim C1. On every termination path of the supervisor the secure-directory teardown
  (cleanupSecureDir) is invoked exactly once before the process exits, and after it no
  secret file remains. The code does not do this: handleExit and the process listeners
  never call cleanupSecureDir. A primary supervisor with four children and a password
  file in its secure directory receives SIGINT; the four kill timers fire, the children
  exit, the poll finds them all exited, the lock file is removed and the process exits
  with code 0, while the secure directory still holds password.txt and
  \<open>secureDirPath\<close> is still set. cleanupSecureDir itself, had it been called, would
  have removed the directory.
\<close>

theorem sigint_shutdown_leaves_password_file:
  "(let s = run [Terminate SIGINT, TimerFire, TimerFire, TimerFire, TimerFire,
                 ChildExit ValidatorClient None, ChildExit (Client ''reth'') None,
                 ChildExit (Client ''lighthouse'') None, ChildExit MevBoost None,
                 IntervalTick] demo_proc
    in exitCode s = Some 0 \<and> lockFile s = None
       \<and> killCalls s = [Validator, Execution, Consensus, Relay]
       \<and> secureDirPath s = Some ''/dev/shm/bgclient-4242''
       \<and> secureDirOnDisk s = Some [''password.txt''])
   \<and> secureDirOnDisk (cleanupSecureDir demo_proc) = None"
  by code_simp

section \<open>Properties of the instance lock\<close>

text \<open>
  One caller running its file-system calls without interruption computes what
  acquireInstanceLock computes.
\<close>

lemma run_alone_eq:
  "run_alone ptable self lk =
     (case acquireInstanceLock ptable self lk of (r, l) \<Rightarrow> (PcDone r, l))"
  by (cases lk; simp add: run_alone_def acquireInstanceLock_def isAlreadyRunning_def
      numeral_eq_Suc createLockFile_def split: kill_outcome.splits errcode.splits)

text \<open>
  isAlreadyRunning answers true exactly when the probe of the lock file's text
  succeeds, and every other call acquires the lock for the caller.
\<close>

lemma already_running_iff_probe_succeeds:
  "(fst (acquireInstanceLock ptable self lk) = AlreadyRunning)
     = (\<exists>c. lk = Some c \<and> process_kill ptable c = Signalled)"
  by (cases lk; simp add: acquireInstanceLock_def isAlreadyRunning_def
      split: kill_outcome.splits)

lemma acquired_owns_lock:
  "fst (acquireInstanceLock ptable self lk) = Acquired \<Longrightarrow>
     snd (acquireInstanceLock ptable self lk) = Some (PidText self)"
  by (cases lk; simp add: acquireInstanceLock_def isAlreadyRunning_def createLockFile_def
      split: kill_outcome.splits if_splits)

text \<open>
  On a lock file that holds what createLockFile writes, the decimal text of a process
  identifier (positive and below \<open>2^31\<close>), acquisition fails only if that process is
  alive, and then the file is left as it is; if the process is dead, the stale lock is
  removed and the caller acquires a lock of its own. With no lock file the caller
  acquires the lock.
\<close>

lemma acquireInstanceLock_on_pid_text:
  assumes "0 < p" and "int p < 2 ^ 31"
  shows "(fst (acquireInstanceLock ptable self (Some (PidText p))) = AlreadyRunning \<longrightarrow>
            alive ptable p
            \<and> snd (acquireInstanceLock ptable self (Some (PidText p))) = Some (PidText p))
     \<and> (\<not> alive ptable p \<longrightarrow>
            isAlreadyRunning ptable (Some (PidText p)) = (False, None)
            \<and> acquireInstanceLock ptable self (Some (PidText p))
                = (Acquired, Some (PidText self)))"
proof -
  have r: "\<not> (int p < - (2 ^ 31) \<or> 2 ^ 31 \<le> int p)" using assms by simp
  show ?thesis
    using assms(1) r
    by (cases "ptable (int p)";
        simp add: acquireInstanceLock_def isAlreadyRunning_def process_kill_def toNumber_def
          alive_def createLockFile_def)
qed

lemma acquireInstanceLock_no_lock:
  "acquireInstanceLock ptable self None = (Acquired, Some (PidText self))"
  by (simp add: acquireInstanceLock_def isAlreadyRunning_def createLockFile_def)

text \<open>
  Claim C8. acquireInstanceLock fails with "already running" only if an existing lock
  file names an owner PID that is alive; a dead owner's lock is discarded and
  acquisition succeeds; with no lock file acquisition succeeds. The code breaks the
  first part: isAlreadyRunning hands the raw text of the lock file to \<open>process.kill\<close>.
  An empty script.lock, as a write that failed after truncating the file leaves it,
  converts to the number 0, which the system call takes for the caller's own process
  group; the probe succeeds and the supervisor reports "already running", although the
  file names no process and no supervisor but the caller, process 4243, is running.
  handleExit reads the same file with \<open>parseInt\<close> and finds no number in it.
\<close>

theorem empty_lock_file_reported_as_running:
  "acquireInstanceLock lone_ptable 4243 (Some empty_text) = (AlreadyRunning, Some empty_text)
   \<and> process_kill lone_ptable empty_text = Signalled
   \<and> toNumber empty_text = Some 0
   \<and> parseInt empty_text = None
   \<and> \<not> alive lone_ptable 0
   \<and> \<not> alive lone_ptable 4242"
  by (simp add: acquireInstanceLock_def isAlreadyRunning_def process_kill_def toNumber_def
      parseInt_def empty_text_def lone_ptable_def alive_def)

text \<open>
  Claim C3. For concurrent acquireInstanceLock calls on one install directory at most one
  succeeds while the owner is alive, because the lock is created with an atomic
  create-exclusive primitive. The code checks with \<open>existsSync\<close> and creates later with
  \<open>writeFileSync\<close>, which overwrites. Two supervisors, processes 4242 and 4243, both
  alive, start with no lock file; each runs its existence check before the other
  creates the file. Both end with the result "acquired", and the lock file names the
  second one only.
\<close>

theorem lock_race_both_acquire:
  "(let r = race_run demo_ptable 4242 4243 [True, False, True, False]
              \<lparr>pcA = PcExists, pcB = PcExists, lock = None\<rparr>
    in pcA r = PcDone Acquired \<and> pcB r = PcDone Acquired \<and> lock r = Some (PidText 4243))
   \<and> alive demo_ptable 4242 \<and> alive demo_ptable 4243"
  by (simp add: race_run_def race_step_def createLockFile_def alive_def demo_ptable_def)

section \<open>Properties of the persisted run configuration\<close>

text \<open>
  Every object that \<open>JSON.parse\<close> returns inherits \<open>__proto__\<close> and \<open>constructor\<close>,
  so the test for suspicious keys, which reads the properties instead of asking for own
  keys, rejects every object; loadOptionsFromFile never returns a document.
\<close>

lemma load_never_accepts:
  "loadOptionsFromFile (JsonText j) = Inl RootNotObject
   \<or> loadOptionsFromFile (JsonText j) = Inl SuspiciousKeys"
  by (cases j; simp add: loadOptionsFromFile_def get_property_def object_prototype_def
      split: option.splits)

text \<open>
  Claim C4. Round trip of the persisted run configuration: loadOptionsFromFile accepts
  every file written by saveOptionsToFile and returns the saved values. The code does
  not: for every configuration, loading the file that saveOptionsToFile wrote throws
  "Invalid options file: suspicious keys detected".
\<close>

theorem load_rejects_saved_options:
  "loadOptionsFromFile (saveOptionsToFile opts) = Inl SuspiciousKeys"
  by (simp add: loadOptionsFromFile_def saveOptionsToFile_def get_property_def
      object_prototype_def)

theorem load_rejects_saved_options_witness:
  "loadOptionsFromFile (saveOptionsToFile default_options) = Inl SuspiciousKeys
   \<and> saveOptionsToFile default_options \<noteq> Missing"
  using load_rejects_saved_options[of default_options]
  by (simp add: saveOptionsToFile_def)

section \<open>Properties of the keystore-password prompt\<close>

text \<open>
  The copy of promptAndSavePassword with the option \<open>firstTime\<close> follows the policy:
  it returns only after writing a password of at least eight characters, which is the
  first line typed and, at first-time setup, also the second; on a routine restart it
  reads one line only; every exit is with code 1 and leaves the password file as it
  was; a short password and a mismatched confirmation are fatal.
\<close>

lemma firstTime_prompt_meets_policy:
  "(promptAndSavePassword_firstTime firstTime st = (Returned, st') \<longrightarrow>
      (\<exists>pw. passwordFile st' = Some pw \<and> 8 \<le> length pw \<and> pw = fst (question st)
         \<and> (firstTime \<longrightarrow> fst (question (snd (question st))) = pw)
         \<and> (\<not> firstTime \<longrightarrow> stdin st' = stdin (snd (question st)))))
   \<and> (\<forall>code. promptAndSavePassword_firstTime firstTime st = (Exit code, st') \<longrightarrow>
         passwordFile st' = passwordFile st \<and> code = 1)
   \<and> (length (fst (question st)) < 8 \<longrightarrow>
         fst (promptAndSavePassword_firstTime firstTime st) = Exit 1)
   \<and> (firstTime \<and> fst (question (snd (question st))) \<noteq> fst (question st) \<longrightarrow>
         fst (promptAndSavePassword_firstTime firstTime st) = Exit 1)"
  by (auto simp add: promptAndSavePassword_firstTime_def question_def write_password_def
      split: prod.splits list.splits if_splits)

text \<open>
  Claim C6. The keystore-password prompt validates a minimum password length, asks for a
  confirmation only during first-time setup, and is fatal on a mismatch. The
  promptAndSavePassword of ethereum\_client\_scripts/keyManager.js has no length check
  and always asks for the confirmation: with no password file, the operator types "abc"
  twice and the function returns with the three-character password written to the file.
\<close>

theorem keyManager_accepts_short_password:
  "promptAndSavePassword \<lparr>stdin = [''abc'', ''abc''], passwordFile = None, parentDir = True\<rparr>
     = (Returned, \<lparr>stdin = [], passwordFile = Some ''abc'', parentDir = True\<rparr>)
   \<and> length ''abc'' < (8::nat)"
  by (simp add: promptAndSavePassword_def question_def write_password_def)

section \<open>Properties of the per-validator secret files\<close>

lemma split_slash_no_slash: "CHR ''/'' \<notin> set s \<Longrightarrow> split_slash s = [s]"
  by (induction s) auto

text \<open>
  A hexadecimal public key names a file directly inside the secrets directory; this is
  what the validation asked for by the specification would guarantee.
\<close>

lemma hex_pubkey_stays_inside:
  assumes "is_hex pubkey"
  shows "path_join secretsDir (''0x'' @ pubkey) = secretsDir @ [''0x'' @ pubkey]"
proof -
  have ne: "pubkey \<noteq> []" using assms by (simp add: is_hex_def)
  have ns: "CHR ''/'' \<notin> set pubkey"
    using assms by (auto simp add: is_hex_def list_all_iff)
  then have "CHR ''/'' \<notin> set (''0x'' @ pubkey)" by simp
  then have sp: "split_slash (''0x'' @ pubkey) = [''0x'' @ pubkey]"
    by (rule split_slash_no_slash)
  have "last pubkey \<in> set pubkey" using ne by simp
  with ns have "last pubkey \<noteq> CHR ''/''" by metis
  with ne have tr: "\<not> trailing_slash (''0x'' @ pubkey)"
    by (simp add: trailing_slash_def)
  have st: "normalize_step secretsDir (''0x'' @ pubkey) = secretsDir @ [''0x'' @ pubkey]"
    by (simp add: normalize_step_def)
  show ?thesis
    unfolding path_join_def sp using tr st by simp
qed

text \<open>
  Claim C2. No secret file is written outside the active secure directory: the keystore's
  pubkey is validated as hexadecimal before the path is built, and an identifier that
  fails is rejected or skipped. The loop of lighthouse\_validator.js only tests that the
  pubkey is truthy. With the secure directory /dev/shm/bgclient-4242, its secrets
  directory and a keystore file whose pubkey is "/../../../evil", the loop writes the
  master password to /dev/shm/evil, outside the secure directory.
\<close>

theorem secret_written_outside_secure_dir:
  "(let fs = populate_secrets (demo_secure_dir @ [''password.txt''])
               (demo_secure_dir @ [''secrets''])
               (Some [(''keystore-m_12381_3600_0_0_0.json'', Keystore (Some ''/../../../evil''))])
               demo_fs
    in map_of (files fs) [''dev'', ''shm'', ''evil''] = Some ''correct horse''
       \<and> \<not> prefix demo_secure_dir [''dev'', ''shm'', ''evil''])
   \<and> \<not> is_hex ''/../../../evil''"
  by code_simp

section \<open>Properties of checkpoint selection\<close>

lemma ranks_before_total: "ranks_before a b \<or> ranks_before b a"
  by (auto simp add: ranks_before_def)

lemma ranks_before_trans: "ranks_before a b \<Longrightarrow> ranks_before b c \<Longrightarrow> ranks_before a c"
  by (auto simp add: ranks_before_def)

lemma ranks_before_refl: "ranks_before a a"
  by (simp add: ranks_before_def)

lemma foldl_best:
  "foldl (\<lambda>best x. if ranks_before best x then best else x) c cs \<in> set (c # cs)
   \<and> (\<forall>d \<in> set (c # cs).
         ranks_before (foldl (\<lambda>best x. if ranks_before best x then best else x) c cs) d)"
proof (induction cs arbitrary: c)
  case Nil
  then show ?case by (simp add: ranks_before_refl)
next
  case (Cons x xs)
  let ?f = "\<lambda>best x. if ranks_before best x then best else x"
  show ?case
  proof (cases "ranks_before c x")
    case True
    from Cons.IH[of c] have m: "foldl ?f c xs \<in> set (c # xs)"
      and b: "\<forall>d \<in> set (c # xs). ranks_before (foldl ?f c xs) d" by auto
    from b have "ranks_before (foldl ?f c xs) c" by simp
    with True have "ranks_before (foldl ?f c xs) x" by (rule ranks_before_trans[rotated])
    with m b True show ?thesis by auto
  next
    case False
    then have xc: "ranks_before x c" using ranks_before_total by blast
    from Cons.IH[of x] have m: "foldl ?f x xs \<in> set (x # xs)"
      and b: "\<forall>d \<in> set (x # xs). ranks_before (foldl ?f x xs) d" by auto
    from b have "ranks_before (foldl ?f x xs) x" by simp
    then have "ranks_before (foldl ?f x xs) c" using xc by (rule ranks_before_trans)
    with m b False show ?thesis by auto
  qed
qed

text \<open>
  Claim C7. selectBest ranks the eligible candidates by freshness first with latency as
  tiebreak and returns the URL of the top-ranked one; with no eligible candidate, for
  instance when all are unreachable, it returns "none found". The result is \<open>None\<close>
  exactly when no candidate is eligible; a returned URL is that of an eligible candidate
  that ranks before every eligible candidate; and with every candidate unreachable the
  result is \<open>None\<close>.
\<close>

theorem selectBest_spec:
  "(selectBest threshold cs = None) = (\<forall>c \<in> set cs. \<not> eligible threshold c)
   \<and> (\<forall>u. selectBest threshold cs = Some u \<longrightarrow>
        (\<exists>c \<in> set cs. eligible threshold c \<and> url c = u
           \<and> (\<forall>d \<in> set cs. eligible threshold d \<longrightarrow> ranks_before c d)))
   \<and> ((\<forall>c \<in> set cs. \<not> reachable c) \<longrightarrow> selectBest threshold cs = None)"
proof (cases "filter (eligible threshold) cs")
  case Nil
  then have none: "\<forall>c \<in> set cs. \<not> eligible threshold c"
    by (simp add: filter_empty_conv)
  with Nil show ?thesis by (simp add: selectBest_def)
next
  case (Cons e es)
  let ?f = "\<lambda>best x. if ranks_before best x then best else x"
  let ?b = "foldl ?f e es"
  have sel: "selectBest threshold cs = Some (url ?b)" using Cons by (simp add: selectBest_def)
  have "?b \<in> set (e # es)" and best: "\<forall>d \<in> set (e # es). ranks_before ?b d"
    using foldl_best[of e es] by auto
  then have "?b \<in> set (filter (eligible threshold) cs)" using Cons by simp
  then have mem: "?b \<in> set cs" and el: "eligible threshold ?b" by auto
  have all: "\<forall>d \<in> set cs. eligible threshold d \<longrightarrow> ranks_before ?b d"
  proof (intro ballI impI)
    fix d assume "d \<in> set cs" "eligible threshold d"
    then have "d \<in> set (filter (eligible threshold) cs)" by simp
    then have "d \<in> set (e # es)" using Cons by simp
    with best show "ranks_before ?b d" by blast
  qed
  have ex: "\<exists>c \<in> set cs. eligible threshold c" using mem el by blast
  have nr: "\<not> (\<forall>c \<in> set cs. \<not> reachable c)" using mem el by (auto simp add: eligible_def)
  from sel mem el all ex nr show ?thesis by auto
qed

theorem selectBest_spec_witness:
  "selectBest 32 demo_candidates = Some ''https://c.example''
   \<and> selectBest 1 demo_candidates = None
   \<and> (\<exists>c \<in> set demo_candidates. eligible 32 c \<and> url c = ''https://c.example'')"
proof -
  have s: "selectBest 32 demo_candidates = Some ''https://c.example''"
    by (simp add: selectBest_def demo_candidates_def eligible_def ranks_before_def)
  have n: "selectBest 1 demo_candidates = None"
    by (simp add: selectBest_def demo_candidates_def eligible_def ranks_before_def)
  from selectBest_spec[of 32 demo_candidates] s n show ?thesis by blast
qed

end
